theory Spec2Isabelle
  imports Main "HOL-Library.AList" "HOL-Library.Char_ord" "HOL-Library.List_Lexorder"
begin

section \<open>The alertmanager service of kapacitor (services/alertmanager/service.go)\<close>

text \<open>
  The service keeps a configuration in an atomic cell, turns an alert level and four
  string slices into one \<open>AlertManagerAlert\<close>, marshals it as a one-element JSON
  array and posts it over HTTP. The embedding passes the state explicitly: the
  \<open>Service\<close> value is the content of the struct behind the \<open>*Service\<close> pointer, and
  a \<open>world\<close> records the calls made to the two collaborators (the HTTP client and the
  diagnostics logger). A run-time panic of Go is a value of the result type.
\<close>

subsection \<open>Values of the packages the file imports\<close>

text \<open>
  Modelled from the spec: the declaration of \<open>alert.Level\<close> (package \<open>alert\<close>) is
  not part of the sources at hand. The spec describes an enumerated set with OK and
  the escalating non-OK levels Info, Warning and Critical.
\<close>
datatype Level = OK | Info | Warning | Critical

text \<open>
  Modelled from the spec: the declaration of \<open>Config\<close> (config.go of the package) is
  not part of the sources at hand. The spec gives it an enablement flag, a destination
  URL and a default room; service.go reads \<open>c.Enabled\<close>, \<open>c.URL\<close> and \<open>c.Room\<close>.
\<close>
record Config =
  Enabled :: bool
  URL :: string
  Room :: string

text \<open>
  Modelled from the spec: \<open>alert.Event\<close> carries a severity level and a message;
  service.go reads \<open>event.State.Level\<close> only.
\<close>
record EventState =
  Level :: Level
  Message :: string


record testOptions =
  to_Room :: string
  to_Message :: string
  to_AlertManagerTagName :: "string list"
  to_AlertManagerTagValue :: "string list"
  to_AlertManagerAnnotationName :: "string list"
  to_AlertManagerAnnotationValue :: "string list"

text \<open>
  A value of Go's \<open>interface{}\<close>, by dynamic type. \<open>DTestOptions\<close> is a pointer
  \<open>*testOptions\<close> to the given struct (the pointer that \<open>TestOptions\<close> hands out is
  never nil), \<open>DNil\<close> the nil interface, and \<open>DOther t\<close> a value of any other
  dynamic type, named \<open>t\<close>.
\<close>
datatype dyn =
    DNil
  | DConfig Config
  | DLevel Level
  | DTestOptions testOptions
  | DOther string

text \<open>
  The type assertions of the file in their two-result form \<open>v, ok := x.(T)\<close>:
  \<open>None\<close> is \<open>ok = false\<close>.
\<close>
definition as_Config :: "dyn \<Rightarrow> Config option" where
  "as_Config x = (case x of DConfig c \<Rightarrow> Some c | _ \<Rightarrow> None)"


subsection \<open>Errors and panics\<close>

text \<open>
  The errors the file returns, one constructor per message:
  \<^item> \<open>ConfigCardinalityError l\<close>: "expected only one new config object, got l";
  \<^item> \<open>ConfigTypeError x\<close>: "expected config object to be of type Config, got (type of x)";
  \<^item> \<open>AdapterDisabledError\<close>: "service is not enabled";
  \<^item> \<open>TransportError m\<close>: the error that \<open>http.Post\<close> returned;
  \<^item> \<open>MarshalError m\<close>: the error that \<open>json.Marshal\<close> returned;
  \<^item> \<open>UnexpectedStatusError code\<close>: "unexpected response code (code) from Alertmanager service";
  \<^item> \<open>OptionsTypeError\<close>: "unexpected options type *alertmanager.testOptions".
\<close>
datatype err =
    ConfigCardinalityError int
  | ConfigTypeError dyn
  | AdapterDisabledError
  | TransportError string
  | MarshalError string
  | UnexpectedStatusError int
  | OptionsTypeError

datatype panic =
    IndexOutOfRange int
  | InterfaceConversion

datatype 'a outcome = Panic panic | Return 'a

text \<open>Indexing a slice: Go panics when the index is outside \<open>0 .. len - 1\<close>.\<close>
definition index :: "'a list \<Rightarrow> int \<Rightarrow> 'a outcome" where
  "index xs i =
     (if 0 \<le> i \<and> i < int (length xs) then Return (xs ! nat i)
      else Panic (IndexOutOfRange i))"

subsection \<open>The collaborators: diagnostics, JSON, HTTP\<close>

text \<open>
  Modelled from the spec: a \<open>Diagnostic\<close> is known by the context it was given;
  \<open>WithContext\<close> extends the context and \<open>Error\<close> is a call that the world logs.
\<close>
type_synonym Diagnostic = "(string \<times> string) list"

definition WithContext :: "Diagnostic \<Rightarrow> (string \<times> string) list \<Rightarrow> Diagnostic" where
  "WithContext d ctx = d @ ctx"

datatype json = JString string | JArray "json list" | JObject "(string \<times> json) list"

record http_request =
  req_url :: string
  req_content_type :: string
  req_body :: json

record Response =
  StatusCode :: int

text \<open>The destination: what \<open>http.Post\<close> returns for a request.\<close>
type_synonym server = "http_request \<Rightarrow> err + Response"

record world =
  posts :: "http_request list"
  diag_errors :: "(Diagnostic \<times> string \<times> err) list"


definition http_Post :: "server \<Rightarrow> string \<Rightarrow> string \<Rightarrow> json \<Rightarrow> world \<Rightarrow> (err + Response) \<times> world" where
  "http_Post srv url contentType body w =
     (let req = \<lparr>req_url = url, req_content_type = contentType, req_body = body\<rparr>
      in (srv req, w\<lparr>posts := posts w @ [req]\<rparr>))"

text \<open>
  What \<open>encoding/json\<close> sees of a Go value: a string, a \<open>map[string]string\<close>, a
  struct as the list of its fields (name, \<open>json\<close> tag if any, value), a slice.
  A struct field is written under its tag, or under its own name when it has none;
  the keys of a map are written in sorted order; a slice is an array.
\<close>
datatype go_value =
    GString string
  | GMap "(string \<times> string) list"
  | GStruct "go_field list"
  | GSlice "go_value list"
and go_field = Field string "string option" go_value

definition json_key :: "string \<Rightarrow> string option \<Rightarrow> string" where
  "json_key name tag = (case tag of None \<Rightarrow> name | Some t \<Rightarrow> t)"

fun marshal :: "go_value \<Rightarrow> json"
and marshal_field :: "go_field \<Rightarrow> string \<times> json" where
  "marshal (GString s) = JString s"
| "marshal (GMap m) = JObject (map (\<lambda>kv. (fst kv, JString (snd kv))) (sort_key fst m))"
| "marshal (GStruct fs) = JObject (map marshal_field fs)"
| "marshal (GSlice xs) = JArray (map marshal xs)"
| "marshal_field (Field name tag v) = (json_key name tag, marshal v)"

text \<open>
  \<open>json.Marshal\<close> returns the bytes or an error. None of the values above makes it
  fail, so the error branch of its caller is never taken.
\<close>
definition json_Marshal :: "go_value \<Rightarrow> err + json" where
  "json_Marshal v = Inr (marshal v)"

subsection \<open>Service, configuration cell\<close>

text \<open>
  \<open>configValue\<close> is an \<open>atomic.Value\<close>: empty until the first \<open>Store\<close>, and only
  \<open>Config\<close> values are ever stored in it.
\<close>
record Service =
  configValue :: "Config option"
  diag :: Diagnostic

definition NewService :: "Config \<Rightarrow> Diagnostic \<Rightarrow> Service" where
  "NewService c d = \<lparr>configValue = Some c, diag = d\<rparr>"

definition Open :: "Service \<Rightarrow> err option" where
  "Open s = None"

definition Close :: "Service \<Rightarrow> err option" where
  "Close s = None"

definition Update :: "Service \<Rightarrow> dyn list \<Rightarrow> err option \<times> Service" where
  "Update s newConfig =
     (let l = int (length newConfig) in
      if l \<noteq> 1 then (Some (ConfigCardinalityError l), s)
      else (case as_Config (newConfig ! 0) of
              None \<Rightarrow> (Some (ConfigTypeError (newConfig ! 0)), s)
            | Some c \<Rightarrow> (None, s\<lparr>configValue := Some c\<rparr>)))"

text \<open>The type assertion of \<open>config\<close> panics on an empty cell.\<close>
definition config :: "Service \<Rightarrow> Config outcome" where
  "config s = (case configValue s of None \<Rightarrow> Panic InterfaceConversion | Some c \<Rightarrow> Return c)"

subsection \<open>The request types with fixed fields\<close>

text \<open>
  \<open>AlertmanagerRequest\<close>, \<open>AlertmanagerLabels\<close> and \<open>AlertmanagerAnnotations\<close>
  carry lower-case \<open>json\<close> tags. No function of the file builds a value of them.
\<close>
record AlertmanagerLabels =
  lb_Instance :: string
  lb_Event :: string
  lb_Environment :: string
  lb_Origin :: string
  lb_Service :: "string list"
  lb_Group :: string
  lb_Customer :: string

record AlertmanagerAnnotations =
  an_Summary :: string
  an_Value :: string
  an_Severity :: string

record AlertmanagerRequest =
  rq_Status :: string
  rq_Labels :: AlertmanagerLabels
  rq_Annotations :: AlertmanagerAnnotations

definition AlertmanagerLabels_value :: "AlertmanagerLabels \<Rightarrow> go_value" where
  "AlertmanagerLabels_value l =
     GStruct [Field ''Instance'' (Some ''instance'') (GString (lb_Instance l)),
              Field ''Event'' (Some ''event'') (GString (lb_Event l)),
              Field ''Environment'' (Some ''environment'') (GString (lb_Environment l)),
              Field ''Origin'' (Some ''origin'') (GString (lb_Origin l)),
              Field ''Service'' (Some ''service'') (GSlice (map GString (lb_Service l))),
              Field ''Group'' (Some ''group'') (GString (lb_Group l)),
              Field ''Customer'' (Some ''customer'') (GString (lb_Customer l))]"

definition AlertmanagerAnnotations_value :: "AlertmanagerAnnotations \<Rightarrow> go_value" where
  "AlertmanagerAnnotations_value a =
     GStruct [Field ''Summary'' (Some ''summary'') (GString (an_Summary a)),
              Field ''Value'' (Some ''value'') (GString (an_Value a)),
              Field ''Severity'' (Some ''severity'') (GString (an_Severity a))]"

definition AlertmanagerRequest_value :: "AlertmanagerRequest \<Rightarrow> go_value" where
  "AlertmanagerRequest_value r =
     GStruct [Field ''Status'' (Some ''status'') (GString (rq_Status r)),
              Field ''Labels'' (Some ''labels'') (AlertmanagerLabels_value (rq_Labels r)),
              Field ''Annotations'' (Some ''annotations'')
                (AlertmanagerAnnotations_value (rq_Annotations r))]"

subsection \<open>Alert\<close>

record AlertManagerAlert =
  Status :: string
  Labels :: "(string \<times> string) list"
  Annotations :: "(string \<times> string) list"

text \<open>The struct has no \<open>json\<close> tags; \<open>PostAlertManager\<close> is a slice of it.\<close>
definition AlertManagerAlert_value :: "AlertManagerAlert \<Rightarrow> go_value" where
  "AlertManagerAlert_value a =
     GStruct [Field ''Status'' None (GString (Status a)),
              Field ''Labels'' None (GMap (Labels a)),
              Field ''Annotations'' None (GMap (Annotations a))]"

definition PostAlertManager_value :: "AlertManagerAlert list \<Rightarrow> go_value" where
  "PostAlertManager_value xs = GSlice (map AlertManagerAlert_value xs)"

text \<open>
  The first loop of \<open>Alert\<close>:
  \<^verbatim>\<open>for i := 0; i < len(tagName)-1; i++ { alertLabels[tagName[i]] = tagValue[i] }\<close>
  A Go map is an association list with one pair per key.
\<close>
function labels_loop ::
  "int \<Rightarrow> string list \<Rightarrow> string list \<Rightarrow> (string \<times> string) list \<Rightarrow> (string \<times> string) list outcome" where
  "labels_loop i tagName tagValue alertLabels =
     (if i < int (length tagName) - 1 then
        (case index tagName i of
           Panic p \<Rightarrow> Panic p
         | Return k \<Rightarrow>
            (case index tagValue i of
               Panic p \<Rightarrow> Panic p
             | Return v \<Rightarrow> labels_loop (i + 1) tagName tagValue (AList.update k v alertLabels)))
      else Return alertLabels)"
  by pat_completeness auto
termination
  by (relation "measure (\<lambda>(i, tagName, tagValue, alertLabels). nat (int (length tagName) - 1 - i))") auto

text \<open>
  The second loop of \<open>Alert\<close>:
  \<^verbatim>\<open>for i := 0; i < len(tagName)-1; i++ { alertAnnotations[annotationName[i]] = annotationValue[i] }\<close>
\<close>
function annotations_loop ::
  "int \<Rightarrow> string list \<Rightarrow> string list \<Rightarrow> string list \<Rightarrow> (string \<times> string) list \<Rightarrow> (string \<times> string) list outcome" where
  "annotations_loop i tagName annotationName annotationValue alertAnnotations =
     (if i < int (length tagName) - 1 then
        (case index annotationName i of
           Panic p \<Rightarrow> Panic p
         | Return k \<Rightarrow>
            (case index annotationValue i of
               Panic p \<Rightarrow> Panic p
             | Return v \<Rightarrow>
                annotations_loop (i + 1) tagName annotationName annotationValue
                  (AList.update k v alertAnnotations)))
      else Return alertAnnotations)"
  by pat_completeness auto
termination
  by (relation "measure (\<lambda>(i, tagName, annotationName, annotationValue, alertAnnotations).
                           nat (int (length tagName) - 1 - i))") auto

declare labels_loop.simps [simp del] annotations_loop.simps [simp del]

text \<open>Lines 94 to 112 of \<open>Alert\<close>: the status, the two maps, the record.\<close>
definition buildAlert ::
  "dyn \<Rightarrow> string list \<Rightarrow> string list \<Rightarrow> string list \<Rightarrow> string list \<Rightarrow> AlertManagerAlert outcome" where
  "buildAlert alertLevel tagName tagValue annotationName annotationValue =
     (let alertStatus = (if alertLevel = DLevel OK then ''resolved'' else ''firing'') in
      case labels_loop 0 tagName tagValue [] of
        Panic p \<Rightarrow> Panic p
      | Return alertLabels \<Rightarrow>
         (case annotations_loop 0 tagName annotationName annotationValue [] of
            Panic p \<Rightarrow> Panic p
          | Return alertAnnotations \<Rightarrow>
             Return \<lparr>Status = alertStatus, Labels = alertLabels, Annotations = alertAnnotations\<rparr>))"

text \<open>
  \<open>Alert\<close>, lines 88 to 130. The parameter \<open>room\<close> is not used. Closing the body
  of the response changes neither the result nor the calls the world records.
\<close>
definition Alert ::
  "Service \<Rightarrow> server \<Rightarrow> string \<Rightarrow> string list \<Rightarrow> string list \<Rightarrow> string list \<Rightarrow> string list \<Rightarrow> dyn
     \<Rightarrow> world \<Rightarrow> err option outcome \<times> world" where
  "Alert s srv room tagName tagValue annotationName annotationValue alertLevel w =
     (case config s of
        Panic p \<Rightarrow> (Panic p, w)
      | Return c \<Rightarrow>
         if \<not> Enabled c then (Return (Some AdapterDisabledError), w)
         else
           (case buildAlert alertLevel tagName tagValue annotationName annotationValue of
              Panic p \<Rightarrow> (Panic p, w)
            | Return newAlert \<Rightarrow>
               (case json_Marshal (PostAlertManager_value [newAlert]) of
                  Inl e \<Rightarrow> (Return (Some e), w)
                | Inr data \<Rightarrow>
                   (case http_Post srv (URL c) ''application/json'' data w of
                      (Inl e, w') \<Rightarrow> (Return (Some e), w')
                    | (Inr r, w') \<Rightarrow>
                       if StatusCode r \<noteq> 200
                       then (Return (Some (UnexpectedStatusError (StatusCode r))), w')
                       else (Return None, w')))))"

subsection \<open>Handler and self-test\<close>

record HandlerConfig =
  hc_Room :: string
  hc_AlertManagerTagName :: "string list"
  hc_AlertManagerTagValue :: "string list"
  hc_AlertManagerAnnotationName :: "string list"
  hc_AlertManagerAnnotationValue :: "string list"

text \<open>
  The handler holds a pointer to the service; the functions below take the current
  content of the service as an argument of its own.
\<close>
record handler =
  h_c :: HandlerConfig
  h_diag :: Diagnostic

definition DefaultHandlerConfig :: "Service \<Rightarrow> HandlerConfig outcome" where
  "DefaultHandlerConfig s =
     (case config s of
        Panic p \<Rightarrow> Panic p
      | Return c \<Rightarrow>
         Return \<lparr>hc_Room = Room c, hc_AlertManagerTagName = [], hc_AlertManagerTagValue = [],
                 hc_AlertManagerAnnotationName = [], hc_AlertManagerAnnotationValue = []\<rparr>)"

definition Handler :: "Service \<Rightarrow> HandlerConfig \<Rightarrow> (string \<times> string) list \<Rightarrow> handler \<times> err option" where
  "Handler s c ctx = (\<lparr>h_c = c, h_diag = WithContext (diag s) ctx\<rparr>, None)"


definition TestOptions :: "Service \<Rightarrow> dyn outcome" where
  "TestOptions s =
     (case config s of
        Panic p \<Rightarrow> Panic p
      | Return c \<Rightarrow>
         Return (DTestOptions
           \<lparr>to_Room = Room c, to_Message = ''test alertmanager message'',
            to_AlertManagerTagName = [], to_AlertManagerTagValue = [],
            to_AlertManagerAnnotationName = [], to_AlertManagerAnnotationValue = []\<rparr>))"


subsection \<open>Example values\<close>

text \<open>
  The configuration of the spec's end-to-end scenario, the same configuration switched
  off, a handler and self-test options with two labels and two annotations, a world in
  which nothing has happened yet, and a destination that answers every request with a
  given status code.
\<close>
definition example_config :: Config where
  "example_config = \<lparr>Enabled = True, URL = ''https://am.example/api'', Room = ''ops''\<rparr>"

definition disabled_config :: Config where
  "disabled_config = \<lparr>Enabled = False, URL = ''https://am.example/api'', Room = ''ops''\<rparr>"





definition empty_world :: world where
  "empty_world = \<lparr>posts = [], diag_errors = []\<rparr>"

definition server_status :: "int \<Rightarrow> server" where
  "server_status code req = Inr \<lparr>StatusCode = code\<rparr>"


section \<open>Properties\<close>

subsection \<open>What the two loops compute\<close>

lemma index_in_range: "0 \<le> i \<Longrightarrow> i < int (length xs) \<Longrightarrow> index xs i = Return (xs ! nat i)"
  by (simp add: index_def)

text \<open>
  When \<open>tagValue\<close> has at least \<open>len(tagName) - 1\<close> elements the first loop returns:
  it has stored the pairs of the indices below \<open>len(tagName) - 1\<close>, in order.
\<close>
lemma labels_loop_fold:
  "0 \<le> i \<Longrightarrow> int (length tagName) - 1 \<le> int (length tagValue) \<Longrightarrow>
     labels_loop i tagName tagValue m =
       Return (fold (\<lambda>kv. AList.update (fst kv) (snd kv))
                 (drop (nat i) (zip (butlast tagName) tagValue)) m)"
proof (induction i tagName tagValue m rule: labels_loop.induct)
  case (1 i tagName tagValue alertLabels)
  show ?case
  proof (cases "i < int (length tagName) - 1")
    case True
    with "1.prems" have k: "index tagName i = Return (tagName ! nat i)"
      and v: "index tagValue i = Return (tagValue ! nat i)"
      by (simp_all add: index_in_range)
    from True "1.prems" have len: "nat i < length (zip (butlast tagName) tagValue)"
      by simp
    have step: "drop (nat i) (zip (butlast tagName) tagValue) =
                  (tagName ! nat i, tagValue ! nat i)
                    # drop (nat (i + 1)) (zip (butlast tagName) tagValue)"
      using len True "1.prems"
      by (simp add: Cons_nth_drop_Suc [symmetric] nth_butlast nat_add_distrib)
    have "labels_loop (i + 1) tagName tagValue
            (AList.update (tagName ! nat i) (tagValue ! nat i) alertLabels) =
          Return (fold (\<lambda>kv. AList.update (fst kv) (snd kv))
                    (drop (nat (i + 1)) (zip (butlast tagName) tagValue))
                    (AList.update (tagName ! nat i) (tagValue ! nat i) alertLabels))"
      using "1.IH" [OF True k v] "1.prems" by simp
    then show ?thesis
      using True k v step by (subst labels_loop.simps) simp
  next
    case False
    then have "drop (nat i) (zip (butlast tagName) tagValue) = []"
      by simp
    then show ?thesis
      using False by (subst labels_loop.simps) simp
  qed
qed

text \<open>
  The second loop takes its bound from \<open>tagName\<close> too: it returns when both
  annotation slices have at least \<open>len(tagName) - 1\<close> elements.
\<close>
lemma annotations_loop_fold:
  "0 \<le> i \<Longrightarrow> int (length tagName) - 1 \<le> int (length annotationName) \<Longrightarrow>
   int (length tagName) - 1 \<le> int (length annotationValue) \<Longrightarrow>
     annotations_loop i tagName annotationName annotationValue m =
       Return (fold (\<lambda>kv. AList.update (fst kv) (snd kv))
                 (drop (nat i) (take (length tagName - 1) (zip annotationName annotationValue))) m)"
proof (induction i tagName annotationName annotationValue m rule: annotations_loop.induct)
  case (1 i tagName annotationName annotationValue alertAnnotations)
  let ?zs = "take (length tagName - 1) (zip annotationName annotationValue)"
  show ?case
  proof (cases "i < int (length tagName) - 1")
    case True
    with "1.prems" have k: "index annotationName i = Return (annotationName ! nat i)"
      and v: "index annotationValue i = Return (annotationValue ! nat i)"
      by (simp_all add: index_in_range)
    from True "1.prems" have len: "nat i < length ?zs"
      by auto
    have step: "drop (nat i) ?zs =
                  (annotationName ! nat i, annotationValue ! nat i) # drop (nat (i + 1)) ?zs"
      using len True "1.prems"
      by (simp add: Cons_nth_drop_Suc [symmetric] nat_add_distrib)
    have "annotations_loop (i + 1) tagName annotationName annotationValue
            (AList.update (annotationName ! nat i) (annotationValue ! nat i) alertAnnotations) =
          Return (fold (\<lambda>kv. AList.update (fst kv) (snd kv)) (drop (nat (i + 1)) ?zs)
                    (AList.update (annotationName ! nat i) (annotationValue ! nat i)
                       alertAnnotations))"
      using "1.IH" [OF True k v] "1.prems" by simp
    then show ?thesis
      using True k v step by (subst annotations_loop.simps) simp
  next
    case False
    then have "drop (nat i) ?zs = []"
      by simp
    then show ?thesis
      using False by (subst annotations_loop.simps) simp
  qed
qed

text \<open>Storing pairs with distinct, new keys appends them.\<close>
lemma update_fresh: "k \<notin> fst ` set al \<Longrightarrow> AList.update k v al = al @ [(k, v)]"
  by (induction al) auto

lemma fold_update_distinct:
  "distinct (map fst xs) \<Longrightarrow> fst ` set xs \<inter> fst ` set m = {} \<Longrightarrow>
     fold (\<lambda>kv. AList.update (fst kv) (snd kv)) xs m = m @ xs"
proof (induction xs arbitrary: m)
  case Nil
  then show ?case by simp
next
  case (Cons x xs)
  from Cons.prems have fresh: "fst x \<notin> fst ` set m"
    by auto
  have "fold (\<lambda>kv. AList.update (fst kv) (snd kv)) xs (m @ [x]) = (m @ [x]) @ xs"
    using Cons.prems by (intro Cons.IH) auto
  then show ?case
    using fresh by (simp add: update_fresh)
qed

lemma zip_butlast_left:
  "length ys = length xs \<Longrightarrow> zip (butlast xs) ys = zip (butlast xs) (butlast ys)"
  by (auto simp add: list_eq_iff_nth_eq nth_butlast)

text \<open>
  For four slices of one length and without repeated names the built record holds all
  pairs but the last one of each kind.
\<close>
lemma buildAlert_equal_lengths:
  assumes "length tagValue = length tagName"
    and "length annotationName = length tagName"
    and "length annotationValue = length tagName"
    and "distinct tagName" and "distinct annotationName"
  shows "buildAlert alertLevel tagName tagValue annotationName annotationValue =
           Return \<lparr>Status = (if alertLevel = DLevel OK then ''resolved'' else ''firing''),
                   Labels = zip (butlast tagName) (butlast tagValue),
                   Annotations = zip (butlast annotationName) (butlast annotationValue)\<rparr>"
proof -
  have l: "labels_loop 0 tagName tagValue [] = Return (zip (butlast tagName) (butlast tagValue))"
  proof -
    have "distinct (map fst (zip (butlast tagName) tagValue))"
      using assms(1,4) by (simp add: map_fst_zip_take distinct_butlast)
    then show ?thesis
      using assms(1) labels_loop_fold [of 0 tagName tagValue "[]"]
      by (simp add: fold_update_distinct zip_butlast_left)
  qed
  have a: "annotations_loop 0 tagName annotationName annotationValue [] =
             Return (zip (butlast annotationName) (butlast annotationValue))"
  proof -
    have eq: "take (length tagName - 1) (zip annotationName annotationValue) =
                zip (butlast annotationName) (butlast annotationValue)"
      using assms(2,3) by (simp add: take_zip butlast_conv_take)
    have d: "distinct (map fst (zip (butlast annotationName) (butlast annotationValue)))"
      using assms(2,3,5) by (simp add: map_fst_zip_take distinct_butlast)
    have "annotations_loop 0 tagName annotationName annotationValue [] =
            Return (fold (\<lambda>kv. AList.update (fst kv) (snd kv))
              (take (length tagName - 1) (zip annotationName annotationValue)) [])"
      using assms(2,3) annotations_loop_fold [of 0 tagName annotationName annotationValue "[]"]
      by simp
    then show ?thesis
      unfolding eq using d by (simp add: fold_update_distinct)
  qed
  show ?thesis
    by (simp add: buildAlert_def l a)
qed



subsection \<open>A run of the example\<close>

lemma example_buildAlert:
  "buildAlert (DLevel Critical) [''severity'', ''team''] [''page'', ''db'']
      [''summary'', ''runbook''] [''disk full'', ''none'']
     = Return \<lparr>Status = ''firing'', Labels = [(''severity'', ''page'')],
                Annotations = [(''summary'', ''disk full'')]\<rparr>"
  by (simp add: buildAlert_def index_def labels_loop.simps annotations_loop.simps)


subsection \<open>The record builder\<close>

text \<open>
  C1: for label sequences of equal length N and annotation sequences of equal length M
  the built record is claimed to hold exactly N labels and M annotations, one entry
  \<open>names[i] -> values[i]\<close> for every index. Both loops of \<open>Alert\<close> stop at
  \<open>len(tagName) - 1\<close>: for the one label and the one annotation of the spec's
  end-to-end scenario (N = M = 1) the built record has no label and no annotation.
\<close>
theorem C1_last_pair_dropped:
  "buildAlert (DLevel Critical) [''severity''] [''page''] [''summary''] [''disk full'']
     = Return \<lparr>Status = ''firing'', Labels = [], Annotations = []\<rparr>"
  by (simp add: buildAlert_def labels_loop.simps annotations_loop.simps)

text \<open>
  C2: the iteration is claimed never to read past the end of one of the four
  sequences. The annotation loop runs up to \<open>len(tagName) - 1\<close>, the bound of the
  label loop: with three labels and one annotation (both pairs of equal length) it
  reads \<open>annotationName[1]\<close>, and \<open>Alert\<close> panics with an index out of range before
  anything is posted.
\<close>
theorem C2_annotation_index_out_of_range:
  "Alert (NewService example_config []) srv ''ops''
      [''a'', ''b'', ''c''] [''1'', ''2'', ''3''] [''s''] [''v''] (DLevel Critical) w
     = (Panic (IndexOutOfRange 1), w)"
  by (simp add: Alert_def config_def NewService_def example_config_def buildAlert_def index_def
        labels_loop.simps annotations_loop.simps)



subsection \<open>The configuration cell\<close>

text \<open>
  C4: \<open>Update\<close> with a slice of length other than one returns the cardinality error;
  with one element that is not a \<open>Config\<close> it returns the type error; with one
  \<open>Config\<close> it returns no error and \<open>config\<close> then returns that element.
\<close>
theorem C4_Update_cases:
  "(length xs \<noteq> 1 \<longrightarrow> Update s xs = (Some (ConfigCardinalityError (int (length xs))), s))
   \<and> (as_Config x = None \<longrightarrow> Update s [x] = (Some (ConfigTypeError x), s))
   \<and> (as_Config x = Some c \<longrightarrow>
        fst (Update s [x]) = None \<and> config (snd (Update s [x])) = Return c)"
  by (simp add: Update_def config_def)

theorem C4_Update_cases_witness:
  "Update (NewService example_config []) [DConfig disabled_config, DConfig example_config]
        = (Some (ConfigCardinalityError 2), NewService example_config [])
   \<and> Update (NewService example_config []) []
        = (Some (ConfigCardinalityError 0), NewService example_config [])
   \<and> as_Config (DOther ''string'') = None
   \<and> Update (NewService example_config []) [DOther ''string'']
        = (Some (ConfigTypeError (DOther ''string'')), NewService example_config [])
   \<and> as_Config (DConfig disabled_config) = Some disabled_config
   \<and> fst (Update (NewService example_config []) [DConfig disabled_config]) = None
   \<and> config (snd (Update (NewService example_config []) [DConfig disabled_config]))
        = Return disabled_config"
  using C4_Update_cases [of "[DConfig disabled_config, DConfig example_config]"
          "NewService example_config []" "DOther ''string''" disabled_config]
        C4_Update_cases [of "[]" "NewService example_config []" "DConfig disabled_config"
          disabled_config]
  by (simp add: as_Config_def)

text \<open>
  C10: when \<open>Update\<close> returns an error the service is unchanged, and \<open>config\<close>
  returns afterwards what it returned before.
\<close>
theorem C10_failed_Update_keeps_config:
  "fst (Update s xs) = Some e \<Longrightarrow>
     snd (Update s xs) = s \<and> config (snd (Update s xs)) = config s"
  by (auto simp add: Update_def Let_def split: if_splits option.splits)

theorem C10_failed_Update_keeps_config_witness:
  "fst (Update (NewService example_config []) [DConfig disabled_config, DConfig disabled_config])
     = Some (ConfigCardinalityError 2)
   \<and> snd (Update (NewService example_config []) [DConfig disabled_config, DConfig disabled_config])
     = NewService example_config []
   \<and> fst (Update (NewService example_config []) [DLevel OK]) = Some (ConfigTypeError (DLevel OK))
   \<and> config (snd (Update (NewService example_config []) [DLevel OK])) = Return example_config"
proof -
  have h1: "fst (Update (NewService example_config [])
                   [DConfig disabled_config, DConfig disabled_config])
            = Some (ConfigCardinalityError 2)"
    by (simp add: Update_def)
  have h2: "fst (Update (NewService example_config []) [DLevel OK])
            = Some (ConfigTypeError (DLevel OK))"
    by (simp add: Update_def as_Config_def)
  show ?thesis
    using h1 h2 C10_failed_Update_keeps_config [OF h1] C10_failed_Update_keeps_config [OF h2]
    by (simp add: config_def NewService_def)
qed

subsection \<open>Dispatch\<close>

text \<open>
  C5: with a stored configuration whose \<open>Enabled\<close> is false, \<open>Alert\<close> returns the
  error "service is not enabled" and leaves the world as it was: no request is posted.
\<close>
theorem C5_disabled_no_post:
  "configValue s = Some c \<Longrightarrow> \<not> Enabled c \<Longrightarrow>
     Alert s srv room tn tv an av lvl w = (Return (Some AdapterDisabledError), w)"
  by (simp add: Alert_def config_def)

theorem C5_disabled_no_post_witness:
  "configValue (NewService disabled_config []) = Some disabled_config
   \<and> \<not> Enabled disabled_config
   \<and> Alert (NewService disabled_config []) (server_status 200) ''ops''
         [''severity'', ''team''] [''page'', ''db''] [''summary'', ''runbook''] [''disk full'', ''none'']
         (DLevel Critical) empty_world
       = (Return (Some AdapterDisabledError), empty_world)
   \<and> posts empty_world = []"
proof -
  have h1: "configValue (NewService disabled_config []) = Some disabled_config"
    by (simp add: NewService_def)
  have h2: "\<not> Enabled disabled_config"
    by (simp add: disabled_config_def)
  show ?thesis
    using h1 h2 C5_disabled_no_post [OF h1 h2]
    by (simp add: empty_world_def)
qed

text \<open>
  C6: when the service is enabled, the record is built and the destination answers the
  request with a response, \<open>Alert\<close> returns no error if the status code is 200 and
  the unexpected-status error carrying the code otherwise.
\<close>
theorem C6_status_code:
  assumes "configValue s = Some c" and "Enabled c"
    and "buildAlert lvl tn tv an av = Return a"
    and "srv \<lparr>req_url = URL c, req_content_type = ''application/json'',
              req_body = marshal (PostAlertManager_value [a])\<rparr> = Inr r"
  shows "(StatusCode r = 200 \<longrightarrow>
            fst (Alert s srv room tn tv an av lvl w) = Return None)
         \<and> (StatusCode r \<noteq> 200 \<longrightarrow>
            fst (Alert s srv room tn tv an av lvl w) =
              Return (Some (UnexpectedStatusError (StatusCode r))))"
  using assms by (simp add: Alert_def config_def json_Marshal_def http_Post_def)

theorem C6_status_code_witness:
  "fst (Alert (NewService example_config []) (server_status 200) ''ops''
          [''severity'', ''team''] [''page'', ''db''] [''summary'', ''runbook'']
          [''disk full'', ''none''] (DLevel Critical) empty_world) = Return None
   \<and> fst (Alert (NewService example_config []) (server_status 500) ''ops''
          [''severity'', ''team''] [''page'', ''db''] [''summary'', ''runbook'']
          [''disk full'', ''none''] (DLevel Critical) empty_world)
       = Return (Some (UnexpectedStatusError 500))"
proof -
  have h1: "configValue (NewService example_config []) = Some example_config"
    by (simp add: NewService_def)
  have h2: "Enabled example_config"
    by (simp add: example_config_def)
  have h4: "server_status code \<lparr>req_url = URL example_config, req_content_type = ''application/json'',
              req_body = marshal (PostAlertManager_value
                [\<lparr>Status = ''firing'', Labels = [(''severity'', ''page'')],
                  Annotations = [(''summary'', ''disk full'')]\<rparr>])\<rparr>
            = Inr \<lparr>StatusCode = code\<rparr>" for code
    by (simp add: server_status_def)
  show ?thesis
    using C6_status_code [where srv = "server_status 200" and room = "''ops''" and w = empty_world,
            OF h1 h2 example_buildAlert h4 [of 200]]
          C6_status_code [where srv = "server_status 500" and room = "''ops''" and w = empty_world,
            OF h1 h2 example_buildAlert h4 [of 500]]
    by simp
qed

text \<open>
  C9: when the service is enabled and the record is built, \<open>Alert\<close> posts one request
  whose body is a JSON array of one object with the members "Status", "Labels" and
  "Annotations", in this order and with these capitals; the labels and the annotations
  are objects of string members, one per key of the map. No value of the request type
  with fixed, lower-case fields marshals to that body.
\<close>
theorem C9_wire_body:
  assumes "configValue s = Some c" and "Enabled c"
    and "buildAlert lvl tn tv an av = Return a"
  shows "posts (snd (Alert s srv room tn tv an av lvl w)) =
           posts w @
           [\<lparr>req_url = URL c, req_content_type = ''application/json'',
             req_body = JArray [JObject
               [(''Status'', JString (Status a)),
                (''Labels'',
                   JObject (map (\<lambda>kv. (fst kv, JString (snd kv))) (sort_key fst (Labels a)))),
                (''Annotations'',
                   JObject (map (\<lambda>kv. (fst kv, JString (snd kv)))
                     (sort_key fst (Annotations a))))]]\<rparr>]
         \<and> (\<forall>q. marshal (PostAlertManager_value [a]) \<noteq>
                  marshal (GSlice [AlertmanagerRequest_value q]))"
  using assms
  by (simp add: Alert_def config_def json_Marshal_def http_Post_def Let_def
        PostAlertManager_value_def AlertManagerAlert_value_def AlertmanagerRequest_value_def
        json_key_def split: sum.split)

theorem C9_wire_body_witness:
  "posts (snd (Alert (NewService example_config []) (server_status 200) ''ops''
          [''severity'', ''team''] [''page'', ''db''] [''summary'', ''runbook'']
          [''disk full'', ''none''] (DLevel Critical) empty_world))
     = [\<lparr>req_url = ''https://am.example/api'', req_content_type = ''application/json'',
         req_body = JArray [JObject
           [(''Status'', JString ''firing''),
            (''Labels'', JObject [(''severity'', JString ''page'')]),
            (''Annotations'', JObject [(''summary'', JString ''disk full'')])]]\<rparr>]"
proof -
  have h1: "configValue (NewService example_config []) = Some example_config"
    by (simp add: NewService_def)
  have h2: "Enabled example_config"
    by (simp add: example_config_def)
  show ?thesis
    using C9_wire_body [where srv = "server_status 200" and room = "''ops''" and w = empty_world,
            OF h1 h2 example_buildAlert]
    by (simp add: empty_world_def example_config_def)
qed

subsection \<open>Handler and self-test\<close>





end
